theory Spec2Isabelle
  imports Complex_Main "HOL-Library.Word"
begin

section \<open>Tensors\<close>

text \<open>
  A tensor is modelled by its extents, its element type and its elements in row-major
  order. Elements are real numbers: the rounding of 32-bit floating point is not
  modelled, and the statements below use only values that a float holds exactly, or are
  about which operation is applied to which operand. Storage exhaustion on allocation
  is not modelled either.
\<close>

datatype ScalarType = kFloat | kLong

datatype error = NegativeDimension | IndexOutOfRange | NotOneElement | UndefinedBehaviour

record Tensor =
  sizes :: "nat list"
  dtype :: ScalarType
  elems :: "real list"

definition numel :: "nat list \<Rightarrow> nat" where
  "numel shape = prod_list shape"

text \<open>\<open>torch::zeros\<close> and \<open>torch::ones\<close> take 64-bit signed extents, refuse a negative
  one, and produce a tensor of the default element type.\<close>

definition full :: "64 word list \<Rightarrow> real \<Rightarrow> error + Tensor" where
  "full shape v =
     (if list_ex (\<lambda>d. sint d < 0) shape then Inl NegativeDimension
      else Inr \<lparr>sizes = map (\<lambda>d. nat (sint d)) shape, dtype = kFloat,
                elems = replicate (numel (map (\<lambda>d. nat (sint d)) shape)) v\<rparr>)"

definition zeros :: "64 word list \<Rightarrow> error + Tensor" where
  "zeros shape = full shape 0"

definition ones :: "64 word list \<Rightarrow> error + Tensor" where
  "ones shape = full shape 1"

text \<open>Conversion of a real to an integer type drops the fractional part.\<close>

definition trunc :: "real \<Rightarrow> int" where
  "trunc x = (if 0 \<le> x then \<lfloor>x\<rfloor> else \<lceil>x\<rceil>)"

definition to_dtype :: "Tensor \<Rightarrow> ScalarType \<Rightarrow> Tensor" where
  "to_dtype t d =
     (if dtype t = d then t
      else t\<lparr>dtype := d,
             elems := (if d = kLong then map (\<lambda>x. real_of_int (trunc x)) (elems t)
                       else elems t)\<rparr>)"

text \<open>\<open>t[i]\<close>: the \<open>i\<close>-th slice along the first dimension; a negative index counts
  from the end, an index outside the first extent is refused.\<close>

definition select :: "Tensor \<Rightarrow> int \<Rightarrow> error + Tensor" where
  "select t i =
     (case sizes t of
        [] \<Rightarrow> Inl IndexOutOfRange
      | n # rest \<Rightarrow>
          (let j = (if i < 0 then i + int n else i)
           in if 0 \<le> j \<and> j < int n
              then Inr \<lparr>sizes = rest, dtype = dtype t,
                        elems = take (numel rest) (drop (nat j * numel rest) (elems t))\<rparr>
              else Inl IndexOutOfRange))"

definition item :: "Tensor \<Rightarrow> error + real" where
  "item t = (case elems t of [x] \<Rightarrow> Inr x | _ \<Rightarrow> Inl NotOneElement)"

section \<open>RolloutStorage (src/storage.cpp)\<close>

text \<open>The header that declares \<open>ActionSpace\<close> is not among the sources; the tests
  build it from a string and a list of integers, taken here as 64-bit.\<close>

record ActionSpace =
  type :: string
  shape :: "64 word list"

record RolloutStorage =
  observations :: Tensor
  hidden_states :: Tensor
  rewards :: Tensor
  value_predictions :: Tensor
  returns :: Tensor
  action_log_probs :: Tensor
  actions :: Tensor
  masks :: Tensor
  num_steps :: "32 word"
  step :: "32 word"

text \<open>
  The constructor. \<open>num_steps\<close>, \<open>num_processes\<close> and \<open>hidden_state_size\<close> are
  \<open>unsigned int\<close>, so \<open>num_steps + 1\<close> wraps at \<open>2 ^ 32\<close> before it is widened to a
  64-bit extent. \<open>num_actions\<close> is an \<open>int\<close>: the first entry of the action space's
  shape is cut to 32 bits and read as signed; reading that entry of an empty shape is
  undefined. The allocations happen in the order of the source, and the first one that
  fails ends the construction.
\<close>

definition RolloutStorage_new ::
  "32 word \<Rightarrow> 32 word \<Rightarrow> 64 word list \<Rightarrow> ActionSpace \<Rightarrow> 32 word \<Rightarrow> error + RolloutStorage" where
  "RolloutStorage_new num_steps' num_processes obs_shape action_space hidden_state_size =
     (let observations_shape = [ucast (num_steps' + 1), ucast num_processes] @ obs_shape in
      case zeros observations_shape of Inl e \<Rightarrow> Inl e | Inr observations' \<Rightarrow>
      case zeros [ucast (num_steps' + 1), ucast num_processes, ucast hidden_state_size] of
        Inl e \<Rightarrow> Inl e | Inr hidden_states' \<Rightarrow>
      case zeros [ucast num_steps', ucast num_processes, 1] of Inl e \<Rightarrow> Inl e | Inr rewards' \<Rightarrow>
      case zeros [ucast (num_steps' + 1), ucast num_processes, 1] of
        Inl e \<Rightarrow> Inl e | Inr value_predictions' \<Rightarrow>
      case zeros [ucast (num_steps' + 1), ucast num_processes, 1] of
        Inl e \<Rightarrow> Inl e | Inr returns' \<Rightarrow>
      case zeros [ucast num_steps', ucast num_processes, 1] of
        Inl e \<Rightarrow> Inl e | Inr action_log_probs' \<Rightarrow>
      case (if type action_space = ''Discrete'' then Inr (1 :: 32 word)
            else (case shape action_space of
                    [] \<Rightarrow> Inl UndefinedBehaviour
                  | d # _ \<Rightarrow> Inr (ucast d))) of
        Inl e \<Rightarrow> Inl e | Inr num_actions \<Rightarrow>
      case zeros [ucast num_steps', ucast num_processes, scast num_actions] of
        Inl e \<Rightarrow> Inl e | Inr actions0 \<Rightarrow>
      (let actions' = (if type action_space = ''Discrete'' then to_dtype actions0 kLong
                       else actions0) in
       case ones [ucast (num_steps' + 1), ucast num_processes, 1] of
         Inl e \<Rightarrow> Inl e | Inr masks' \<Rightarrow>
       Inr \<lparr>observations = observations', hidden_states = hidden_states',
            rewards = rewards', value_predictions = value_predictions',
            returns = returns', action_log_probs = action_log_probs',
            actions = actions', masks = masks',
            num_steps = num_steps', step = 0\<rparr>))"

text \<open>The three operations have empty bodies in the source: every argument is
  discarded and the object is left as it was.\<close>

definition after_update :: "RolloutStorage \<Rightarrow> RolloutStorage" where
  "after_update s = s"

definition compute_returns ::
  "Tensor \<Rightarrow> bool \<Rightarrow> real \<Rightarrow> real \<Rightarrow> RolloutStorage \<Rightarrow> RolloutStorage" where
  "compute_returns next_value use_gae gamma tau s = s"

definition insert_rs ::
  "Tensor \<Rightarrow> Tensor \<Rightarrow> Tensor \<Rightarrow> Tensor \<Rightarrow> Tensor \<Rightarrow> Tensor \<Rightarrow> Tensor \<Rightarrow>
   RolloutStorage \<Rightarrow> RolloutStorage" where
  "insert_rs observation hidden_state action action_log_prob value_prediction reward mask' s = s"

text \<open>A call of one of the three operations, and a finite sequence of calls.\<close>

datatype call =
    Insert Tensor Tensor Tensor Tensor Tensor Tensor Tensor
  | ComputeReturns Tensor bool real real
  | AfterUpdate

fun apply_call :: "RolloutStorage \<Rightarrow> call \<Rightarrow> RolloutStorage" where
  "apply_call s (Insert ob h a lp v r m) = insert_rs ob h a lp v r m s"
| "apply_call s (ComputeReturns nv g gm tau) = compute_returns nv g gm tau s"
| "apply_call s AfterUpdate = after_update s"

definition run :: "RolloutStorage \<Rightarrow> call list \<Rightarrow> RolloutStorage" where
  "run s cs = foldl apply_call s cs"

text \<open>\<open>t[i][j]...item()\<close> as the tests read a stored value.\<close>

fun item_at :: "Tensor \<Rightarrow> int list \<Rightarrow> error + real" where
  "item_at t [] = item t"
| "item_at t (i # js) = (case select t i of Inl e \<Rightarrow> Inl e | Inr r \<Rightarrow> item_at r js)"

text \<open>A tensor built from a vector of values (\<open>torch::from_blob\<close>), of the default
  element type.\<close>

definition from_blob :: "real list \<Rightarrow> nat list \<Rightarrow> Tensor" where
  "from_blob xs dims = \<lparr>sizes = dims, dtype = kFloat, elems = take (numel dims) xs\<rparr>"

text \<open>A tensor all of whose elements are \<open>v\<close>.\<close>

definition filled :: "Tensor \<Rightarrow> real \<Rightarrow> bool" where
  "filled t v = (elems t = replicate (numel (sizes t)) v)"

text \<open>The action spaces for which the constructor's read of the first extent is
  defined and gives an extent that an allocation accepts.\<close>

definition valid_action_space :: "ActionSpace \<Rightarrow> bool" where
  "valid_action_space sp =
     (type sp = ''Discrete'' \<or>
      (case shape sp of [] \<Rightarrow> False | d # _ \<Rightarrow> 0 \<le> sint (ucast d :: 32 word)))"

text \<open>Reading a property of a storage whose construction may have failed.\<close>

definition on_storage :: "(RolloutStorage \<Rightarrow> 'a) \<Rightarrow> error + RolloutStorage \<Rightarrow> error + 'a" where
  "on_storage f r = (case r of Inl e \<Rightarrow> Inl e | Inr s \<Rightarrow> Inr (f s))"

definition read :: "(RolloutStorage \<Rightarrow> Tensor) \<Rightarrow> int list \<Rightarrow> error + RolloutStorage \<Rightarrow> error + real" where
  "read f idx r = (case r of Inl e \<Rightarrow> Inl e | Inr s \<Rightarrow> item_at (f s) idx)"

subsection \<open>The scenarios of the test cases\<close>

text \<open>\<open>compute_returns()\<close>: a storage of three steps and two processes, three inserts
  with the value predictions, rewards and masks of the test, then the computation of
  the returns with the next values \<open>[0, 1]\<close> and both factors \<open>0.6\<close>.\<close>

definition test_insert :: "real list \<Rightarrow> real list \<Rightarrow> real list \<Rightarrow> RolloutStorage \<Rightarrow> RolloutStorage" where
  "test_insert value_preds rewards' masks' s =
     insert_rs (from_blob (replicate 8 0) [2, 4]) (from_blob (replicate 10 0) [2, 5])
       (from_blob (replicate 2 0) [2, 1]) (from_blob (replicate 2 0) [2, 1])
       (from_blob value_preds [2, 1]) (from_blob rewards' [2, 1]) (from_blob masks' [2, 1]) s"

definition returns_fixture :: "bool \<Rightarrow> error + RolloutStorage" where
  "returns_fixture use_gae =
     on_storage
       (compute_returns (from_blob [0, 1] [2, 1]) use_gae 0.6 0.6 \<circ>
        test_insert [2, 3] [2, 3] [1, 1] \<circ>
        test_insert [1, 2] [1, 2] [1, 0] \<circ>
        test_insert [0, 1] [0, 1] [1, 1])
       (RolloutStorage_new 3 2 [4] \<lparr>type = ''Discrete'', shape = [3]\<rparr> 5)"

text \<open>\<open>insert() inserts values\<close>: a storage of three steps and four processes, and one
  insert of a batch of the storage's shapes, every entry \<open>3 / 2\<close> and the mask \<open>1\<close>.\<close>

definition insert_fixture :: "error + RolloutStorage" where
  "insert_fixture =
     on_storage
       (insert_rs (from_blob (replicate 40 (3 / 2)) [4, 5, 2])
          (from_blob (replicate 40 (3 / 2)) [4, 10])
          (from_blob (replicate 4 1) [4, 1]) (from_blob (replicate 4 (3 / 2)) [4, 1])
          (from_blob (replicate 4 (3 / 2)) [4, 1]) (from_blob (replicate 4 (3 / 2)) [4, 1])
          (from_blob (replicate 4 1) [4, 1]))
       (RolloutStorage_new 3 4 [5, 2] \<lparr>type = ''Discrete'', shape = [3]\<rparr> 10)"

text \<open>A full buffer of one step and one process, as a rollout leaves it: the observation
  \<open>7\<close>, the hidden state \<open>5\<close> and the mask \<open>0\<close> in slot 1, the cursor at 1.\<close>

definition full_buffer :: RolloutStorage where
  "full_buffer =
     \<lparr>observations = from_blob [0, 7] [2, 1, 1], hidden_states = from_blob [0, 5] [2, 1, 1],
      rewards = from_blob [1] [1, 1, 1], value_predictions = from_blob [0, 0] [2, 1, 1],
      returns = from_blob [0, 0] [2, 1, 1], action_log_probs = from_blob [0] [1, 1, 1],
      actions = \<lparr>sizes = [1, 1, 1], dtype = kLong, elems = [0]\<rparr>,
      masks = from_blob [1, 0] [2, 1, 1], num_steps = 1, step = 1\<rparr>"

section \<open>The training loop (example/gym_client.cpp)\<close>

definition discount_factor :: real where
  "discount_factor = 99 / 100"

definition log_interval :: nat where
  "log_interval = 10"

definition reward_average_window_size :: nat where
  "reward_average_window_size = 10"

definition reward_clip_value :: real where
  "reward_clip_value = 100"

definition num_envs :: nat where
  "num_envs = 8"

definition render_reward_threshold :: real where
  "render_reward_threshold = 160"

text \<open>
  The variables of \<open>main\<close> that the reward normalisation and the episode statistics
  read and write. \<open>returns_main\<close> is the local tensor \<open>returns\<close> of \<open>main\<close>. The
  running moments \<open>returns_rms\<close> belong to a class that is not part of these sources:
  their state is a type parameter, and \<open>update\<close> and \<open>get_variance\<close> are parameters of
  the functions below. \<open>episode_count\<close> is an \<open>int\<close> that only counts up, by at most
  one per environment and step, and stays far below \<open>2 ^ 31\<close> in the
  \<open>max_frames\<close> steps of a run: it is a natural number here.
\<close>

record 'rms main_state =
  running_rewards :: "real list"
  episode_count :: nat
  render :: bool
  reward_history :: "real list"
  returns_rms :: 'rms
  returns_main :: "real list"

definition init_state :: "'rms \<Rightarrow> 'rms main_state" where
  "init_state rms =
     \<lparr>running_rewards = replicate num_envs 0, episode_count = 0, render = False,
      reward_history = replicate reward_average_window_size 0, returns_rms = rms,
      returns_main = replicate num_envs 0\<rparr>"

definition clamp :: "real \<Rightarrow> real \<Rightarrow> real \<Rightarrow> real" where
  "clamp x lo hi = min (max x lo) hi"

text \<open>
  The reward normalisation of one step, the same text in both branches of the source:
  \<open>returns = returns * discount_factor + reward_tensor\<close>, the update of the running
  moments with \<open>returns\<close>, and the clamped quotient. Where \<open>variance + 1e-8\<close> is not
  positive the floating-point result is no number, and the model stops with
  \<open>NotFinite\<close>. \<open>OutOfBounds\<close> stands for a read past the end of a vector of the
  answer, and for vectors of the state that are not of the length the loop gives them.
\<close>

datatype loop_error = OutOfBounds | NotFinite

definition normalize_rewards ::
  "('rms \<Rightarrow> real list \<Rightarrow> 'rms) \<Rightarrow> ('rms \<Rightarrow> real) \<Rightarrow> real list \<Rightarrow> 'rms main_state \<Rightarrow>
   loop_error + real list \<times> 'rms main_state" where
  "normalize_rewards update get_variance raw_reward_vec st =
     (if num_envs \<le> length raw_reward_vec \<and> length (returns_main st) = num_envs
      then
        let reward_tensor = take num_envs raw_reward_vec;
            returns' = map2 (\<lambda>R r. R * discount_factor + r) (returns_main st) reward_tensor;
            rms = update (returns_rms st) returns'
        in if 0 < get_variance rms + 1 / 10 ^ 8
           then Inr (map (\<lambda>r. clamp (r / sqrt (get_variance rms + 1 / 10 ^ 8))
                                 (- reward_clip_value) reward_clip_value) reward_tensor,
                     st\<lparr>returns_rms := rms, returns_main := returns'\<rparr>)
           else Inl NotFinite
      else Inl OutOfBounds)"

text \<open>The body of the loop over the environments after a step (lines 240 to 250).\<close>

definition track_env :: "real list \<Rightarrow> bool list list \<Rightarrow> 'rms main_state \<Rightarrow> nat \<Rightarrow> 'rms main_state" where
  "track_env real_rewards dones_vec st i =
     (let st1 = st\<lparr>running_rewards :=
                    (running_rewards st)[i := running_rewards st ! i + real_rewards ! i]\<rparr>
      in if hd (dones_vec ! i)
         then st1\<lparr>reward_history :=
                    (reward_history st1)[episode_count st1 mod reward_average_window_size :=
                                           running_rewards st1 ! i],
                  running_rewards := (running_rewards st1)[i := 0],
                  returns_main := (returns_main st1)[i := 0],
                  episode_count := episode_count st1 + 1\<rparr>
         else st1)"

definition track_episodes ::
  "real list \<Rightarrow> bool list list \<Rightarrow> 'rms main_state \<Rightarrow> loop_error + 'rms main_state" where
  "track_episodes real_rewards dones_vec st =
     (if num_envs \<le> length real_rewards \<and> num_envs \<le> length dones_vec \<and>
         list_all (\<lambda>d. d \<noteq> []) (take num_envs dones_vec) \<and>
         length (running_rewards st) = num_envs \<and> length (returns_main st) = num_envs \<and>
         length (reward_history st) = reward_average_window_size
      then Inr (foldl (track_env real_rewards dones_vec) st [0..<num_envs])
      else Inl OutOfBounds)"

text \<open>
  What one pass of the inner loop computes from the answer of the environment (lines
  207 to 255): the rewards are normalised, the episodes are tracked, and the results are
  the vector \<open>rewards\<close> and the entries of \<open>1 - dones\<close>.
\<close>

definition step_results ::
  "('rms \<Rightarrow> real list \<Rightarrow> 'rms) \<Rightarrow> ('rms \<Rightarrow> real) \<Rightarrow> nat \<Rightarrow> real list \<Rightarrow> bool list list \<Rightarrow>
   'rms main_state \<Rightarrow> loop_error + (real list \<times> real list) \<times> 'rms main_state" where
  "step_results update get_variance observation_space_shape_size real_reward dones_vec st =
     (case (if observation_space_shape_size > 1
            then normalize_rewards update get_variance real_reward st
            else normalize_rewards update get_variance real_reward st) of
        Inl e \<Rightarrow> Inl e
      | Inr (rewards', st1) \<Rightarrow>
          (case track_episodes real_reward dones_vec st1 of
             Inl e \<Rightarrow> Inl e
           | Inr st2 \<Rightarrow>
               Inr ((rewards',
                     map (\<lambda>i. 1 - (if hd (dones_vec ! i) then 1 else 0)) [0..<num_envs]),
                    st2)))"

text \<open>
  One pass of the inner loop from the answer of the policy on (lines 184 to 263). The
  answer \<open>act_result\<close> of the policy and the observation built from the answer of the
  environment are parameters. The pass ends with the call of \<open>storage.insert\<close> on the
  observation, the four entries of \<open>act_result\<close>, the normalised rewards as a tensor of
  shape \<open>[num_envs, 1]\<close> and \<open>1 - dones\<close>; its results are the storage after that
  call and the variables of \<open>main\<close>.
\<close>

definition env_step ::
  "('rms \<Rightarrow> real list \<Rightarrow> 'rms) \<Rightarrow> ('rms \<Rightarrow> real) \<Rightarrow> nat \<Rightarrow> Tensor \<Rightarrow> Tensor list \<Rightarrow>
   real list \<Rightarrow> bool list list \<Rightarrow> RolloutStorage \<Rightarrow> 'rms main_state \<Rightarrow>
   loop_error + RolloutStorage \<times> 'rms main_state" where
  "env_step update get_variance observation_space_shape_size observation act_result
     real_reward dones_vec storage st =
     (if 4 \<le> length act_result
      then (case step_results update get_variance observation_space_shape_size real_reward
                   dones_vec st of
              Inl e \<Rightarrow> Inl e
            | Inr ((rewards', masks'), st2) \<Rightarrow>
                Inr (insert_rs observation (act_result ! 3) (act_result ! 1) (act_result ! 2)
                       (act_result ! 0) (from_blob rewards' [num_envs, 1])
                       (from_blob masks' [num_envs, 1]) storage,
                     st2))
      else Inl OutOfBounds)"

text \<open>
  \<open>std::accumulate\<close> with the initial value \<open>0\<close> of type \<open>int\<close>: the accumulator is
  an \<open>int\<close>, and every sum of the accumulator and an entry is cut back to an
  \<open>int\<close>. A sum outside the range of \<open>int\<close> has no defined conversion.
\<close>

fun accumulate :: "real list \<Rightarrow> int \<Rightarrow> loop_error + int" where
  "accumulate [] init = Inr init"
| "accumulate (x # xs) init =
     (let v = trunc (real_of_int init + x)
      in if - (2 ^ 31) \<le> v \<and> v < 2 ^ 31 then accumulate xs v else Inl OutOfBounds)"

text \<open>A floating-point quotient: the division by zero does not trap, it gives an
  infinity or no number.\<close>

datatype fvalue = Finite real | PlusInf | MinusInf | NaN

definition fdiv :: "real \<Rightarrow> real \<Rightarrow> fvalue" where
  "fdiv x y =
     (if y \<noteq> 0 then Finite (x / y)
      else if 0 < x then PlusInf else if x < 0 then MinusInf else NaN)"

fun fge :: "fvalue \<Rightarrow> real \<Rightarrow> bool" where
  "fge (Finite x) t = (t \<le> x)"
| "fge PlusInf t = True"
| "fge MinusInf t = False"
| "fge NaN t = False"

definition average_reward :: "'rms main_state \<Rightarrow> loop_error + fvalue" where
  "average_reward st =
     (case accumulate (reward_history st) 0 of
        Inl e \<Rightarrow> Inl e
      | Inr acc \<Rightarrow>
          Inr (fdiv (real_of_int acc)
                 (real (if episode_count st < reward_average_window_size
                        then episode_count st else reward_average_window_size))))"

text \<open>The report at the end of an update: the logged reward, if this update logs,
  and the state with the new \<open>render\<close> flag.\<close>

definition report :: "nat \<Rightarrow> 'rms main_state \<Rightarrow> loop_error + fvalue option \<times> 'rms main_state" where
  "report update st =
     (if update mod log_interval = 0 \<and> update > 0
      then (case average_reward st of
              Inl e \<Rightarrow> Inl e
            | Inr a \<Rightarrow> Inr (Some a, st\<lparr>render := fge a render_reward_threshold\<rparr>))
      else Inr (None, st))"

subsection \<open>A pass of the inner loop in the middle of a rollout\<close>

text \<open>
  The storage that \<open>main\<close> constructs for forty steps, eight environments, observations
  of eight entries, a \<open>Discrete\<close> action space and hidden states of size 64.
\<close>

definition rollout_storage :: RolloutStorage where
  "rollout_storage =
     \<lparr>observations = \<lparr>sizes = [41, 8, 8], dtype = kFloat, elems = replicate 2624 0\<rparr>,
      hidden_states = \<lparr>sizes = [41, 8, 64], dtype = kFloat, elems = replicate 20992 0\<rparr>,
      rewards = \<lparr>sizes = [40, 8, 1], dtype = kFloat, elems = replicate 320 0\<rparr>,
      value_predictions = \<lparr>sizes = [41, 8, 1], dtype = kFloat, elems = replicate 328 0\<rparr>,
      returns = \<lparr>sizes = [41, 8, 1], dtype = kFloat, elems = replicate 328 0\<rparr>,
      action_log_probs = \<lparr>sizes = [40, 8, 1], dtype = kFloat, elems = replicate 320 0\<rparr>,
      actions = \<lparr>sizes = [40, 8, 1], dtype = kLong, elems = replicate 320 0\<rparr>,
      masks = \<lparr>sizes = [41, 8, 1], dtype = kFloat, elems = replicate 328 1\<rparr>,
      num_steps = 40, step = 0\<rparr>"

text \<open>
  The variables of \<open>main\<close> after a first step in which the first environment has the
  reward 100, the others 0, and no episode ends.
\<close>

definition second_step_state :: "unit main_state" where
  "second_step_state =
     \<lparr>running_rewards = [100, 0, 0, 0, 0, 0, 0, 0], episode_count = 0, render = False,
      reward_history = [0, 0, 0, 0, 0, 0, 0, 0, 0, 0], returns_rms = (),
      returns_main = [100, 0, 0, 0, 0, 0, 0, 0]\<rparr>"

text \<open>
  The next pass: running moments of variance \<open>1 - 1e-8\<close>, the rewards 1 to 7 and 200,
  and the episode of the second environment ending.
\<close>

definition second_step :: "loop_error + RolloutStorage \<times> unit main_state" where
  "second_step =
     env_step (\<lambda>m xs. ()) (\<lambda>m. 1 - 1 / 10 ^ 8) 1 (from_blob (replicate 64 1) [8, 8])
       [from_blob (replicate 8 1) [8, 1], from_blob (replicate 8 1) [8, 1],
        from_blob (replicate 8 (- 1)) [8, 1], from_blob (replicate 512 0) [8, 64]]
       [1, 2, 3, 4, 5, 6, 7, 200]
       [[False], [True], [False], [False], [False], [False], [False], [False]]
       rollout_storage second_step_state"

text \<open>Running one part of the loop after another, stopping at the first failure.\<close>

definition and_then :: "loop_error + 'a \<Rightarrow> ('a \<Rightarrow> loop_error + 'b) \<Rightarrow> loop_error + 'b" where
  "and_then r f = (case r of Inl e \<Rightarrow> Inl e | Inr x \<Rightarrow> f x)"

section \<open>Properties of the storage\<close>

subsection \<open>Construction\<close>

lemma sint_ucast_32_64: "sint (ucast (w :: 32 word) :: 64 word) = uint w"
proof -
  have "uint w < 2 ^ 32"
    using uint_bounded [of w] by simp
  then have "uint w < 2 ^ 63"
    by simp
  moreover have "- (2 ^ 63) \<le> uint w"
  proof -
    have "- (2 ^ 63) \<le> (0 :: int)" by simp
    also have "0 \<le> uint w" by simp
    finally show ?thesis .
  qed
  ultimately show ?thesis
    by (simp add: signed_ucast_eq signed_take_bit_int_eq_self)
qed

lemma nat_sint_ucast_32_64: "nat (sint (ucast (w :: 32 word) :: 64 word)) = unat w"
  by (simp add: sint_ucast_32_64)

lemma full_words:
  "full [ucast (a :: 32 word), ucast (b :: 32 word), ucast (c :: 32 word)] v =
   Inr \<lparr>sizes = [unat a, unat b, unat c], dtype = kFloat,
        elems = replicate (numel [unat a, unat b, unat c]) v\<rparr>"
  by (simp add: full_def sint_ucast_32_64 nat_sint_ucast_32_64)

lemma full_words_1:
  "full [ucast (a :: 32 word), ucast (b :: 32 word), 1] v =
   Inr \<lparr>sizes = [unat a, unat b, 1], dtype = kFloat,
        elems = replicate (numel [unat a, unat b, 1]) v\<rparr>"
  using full_words [of a b 1 v] by simp


lemma sint_scast_32_64: "sint (scast (w :: 32 word) :: 64 word) = sint w"
  by (simp add: sint_up_scast is_up)

lemma full_actions:
  "0 \<le> sint (c :: 32 word) \<Longrightarrow>
   full [ucast (a :: 32 word), ucast (b :: 32 word), scast c] v =
   Inr \<lparr>sizes = [unat a, unat b, nat (sint c)], dtype = kFloat,
        elems = replicate (numel [unat a, unat b, nat (sint c)]) v\<rparr>"
  by (simp add: full_def sint_ucast_32_64 nat_sint_ucast_32_64 sint_scast_32_64)

lemma full_actions_neg:
  "sint (c :: 32 word) < 0 \<Longrightarrow>
   full [ucast (a :: 32 word), ucast (b :: 32 word), scast c] v = Inl NegativeDimension"
  by (simp add: full_def sint_scast_32_64)

lemma full_obs:
  "\<not> list_ex (\<lambda>d. sint d < 0) obs_shape \<Longrightarrow>
   full (ucast (a :: 32 word) # ucast (b :: 32 word) # obs_shape) v =
   Inr \<lparr>sizes = unat a # unat b # map (\<lambda>d. nat (sint d)) obs_shape, dtype = kFloat,
        elems = replicate (numel (unat a # unat b # map (\<lambda>d. nat (sint d)) obs_shape)) v\<rparr>"
  by (simp add: full_def sint_ucast_32_64 nat_sint_ucast_32_64)

lemma full_obs_neg:
  "list_ex (\<lambda>d. sint d < 0) obs_shape \<Longrightarrow>
   full (ucast (a :: 32 word) # ucast (b :: 32 word) # obs_shape) v = Inl NegativeDimension"
  by (simp add: full_def)

lemma RolloutStorage_new_Discrete:
  assumes "\<not> list_ex (\<lambda>d. sint d < 0) obs_shape" and "type sp = ''Discrete''"
  shows "RolloutStorage_new T N obs_shape sp H =
    Inr \<lparr>observations = \<lparr>sizes = unat (T + 1) # unat N # map (\<lambda>d. nat (sint d)) obs_shape,
            dtype = kFloat,
            elems = replicate (numel (unat (T + 1) # unat N # map (\<lambda>d. nat (sint d)) obs_shape)) 0\<rparr>,
         hidden_states = \<lparr>sizes = [unat (T + 1), unat N, unat H], dtype = kFloat,
            elems = replicate (numel [unat (T + 1), unat N, unat H]) 0\<rparr>,
         rewards = \<lparr>sizes = [unat T, unat N, 1], dtype = kFloat,
            elems = replicate (numel [unat T, unat N, 1]) 0\<rparr>,
         value_predictions = \<lparr>sizes = [unat (T + 1), unat N, 1], dtype = kFloat,
            elems = replicate (numel [unat (T + 1), unat N, 1]) 0\<rparr>,
         returns = \<lparr>sizes = [unat (T + 1), unat N, 1], dtype = kFloat,
            elems = replicate (numel [unat (T + 1), unat N, 1]) 0\<rparr>,
         action_log_probs = \<lparr>sizes = [unat T, unat N, 1], dtype = kFloat,
            elems = replicate (numel [unat T, unat N, 1]) 0\<rparr>,
         actions = \<lparr>sizes = [unat T, unat N, 1], dtype = kLong,
            elems = replicate (numel [unat T, unat N, 1]) 0\<rparr>,
         masks = \<lparr>sizes = [unat (T + 1), unat N, 1], dtype = kFloat,
            elems = replicate (numel [unat (T + 1), unat N, 1]) 1\<rparr>,
         num_steps = T, step = 0\<rparr>"
  using assms full_actions [of 1 T N 0]
  by (simp add: RolloutStorage_new_def zeros_def ones_def full_obs full_words full_words_1
      to_dtype_def trunc_def)

lemma RolloutStorage_new_Box:
  assumes "\<not> list_ex (\<lambda>d. sint d < 0) obs_shape" and "type sp \<noteq> ''Discrete''"
    and "shape sp = d # ds" and "0 \<le> sint (ucast d :: 32 word)"
  shows "RolloutStorage_new T N obs_shape sp H =
    Inr \<lparr>observations = \<lparr>sizes = unat (T + 1) # unat N # map (\<lambda>d. nat (sint d)) obs_shape,
            dtype = kFloat,
            elems = replicate (numel (unat (T + 1) # unat N # map (\<lambda>d. nat (sint d)) obs_shape)) 0\<rparr>,
         hidden_states = \<lparr>sizes = [unat (T + 1), unat N, unat H], dtype = kFloat,
            elems = replicate (numel [unat (T + 1), unat N, unat H]) 0\<rparr>,
         rewards = \<lparr>sizes = [unat T, unat N, 1], dtype = kFloat,
            elems = replicate (numel [unat T, unat N, 1]) 0\<rparr>,
         value_predictions = \<lparr>sizes = [unat (T + 1), unat N, 1], dtype = kFloat,
            elems = replicate (numel [unat (T + 1), unat N, 1]) 0\<rparr>,
         returns = \<lparr>sizes = [unat (T + 1), unat N, 1], dtype = kFloat,
            elems = replicate (numel [unat (T + 1), unat N, 1]) 0\<rparr>,
         action_log_probs = \<lparr>sizes = [unat T, unat N, 1], dtype = kFloat,
            elems = replicate (numel [unat T, unat N, 1]) 0\<rparr>,
         actions = \<lparr>sizes = [unat T, unat N, nat (sint (ucast d :: 32 word))], dtype = kFloat,
            elems = replicate (numel [unat T, unat N, nat (sint (ucast d :: 32 word))]) 0\<rparr>,
         masks = \<lparr>sizes = [unat (T + 1), unat N, 1], dtype = kFloat,
            elems = replicate (numel [unat (T + 1), unat N, 1]) 1\<rparr>,
         num_steps = T, step = 0\<rparr>"
  using assms
  by (simp add: RolloutStorage_new_def zeros_def ones_def full_obs full_words full_words_1
      full_actions)

lemma RolloutStorage_new_cases:
  assumes "RolloutStorage_new T N obs_shape sp H = Inr s"
  shows "\<not> list_ex (\<lambda>d. sint d < 0) obs_shape \<and>
         (type sp = ''Discrete'' \<or>
          (\<exists>d ds. shape sp = d # ds \<and> 0 \<le> sint (ucast d :: 32 word)))"
proof -
  have obs: "\<not> list_ex (\<lambda>d. sint d < 0) obs_shape"
  proof
    assume "list_ex (\<lambda>d. sint d < 0) obs_shape"
    then have "RolloutStorage_new T N obs_shape sp H = Inl NegativeDimension"
      by (simp add: RolloutStorage_new_def zeros_def full_obs_neg)
    with assms show False by simp
  qed
  have "type sp = ''Discrete'' \<or> (\<exists>d ds. shape sp = d # ds \<and> 0 \<le> sint (ucast d :: 32 word))"
  proof (cases "type sp = ''Discrete''")
    case True
    then show ?thesis by simp
  next
    case False
    show ?thesis
    proof (cases "shape sp")
      case Nil
      with False obs have "RolloutStorage_new T N obs_shape sp H = Inl UndefinedBehaviour"
        by (simp add: RolloutStorage_new_def zeros_def full_obs full_words full_words_1)
      with assms show ?thesis by simp
    next
      case (Cons d ds)
      show ?thesis
      proof (cases "0 \<le> sint (ucast d :: 32 word)")
        case True
        with Cons show ?thesis by simp
      next
        case neg: False
        with False obs Cons
        have "RolloutStorage_new T N obs_shape sp H = Inl NegativeDimension"
          by (simp add: RolloutStorage_new_def zeros_def full_obs full_words full_words_1
              full_actions_neg)
        with assms show ?thesis by simp
      qed
    qed
  qed
  with obs show ?thesis by simp
qed


lemma RolloutStorage_new_fresh:
  assumes "RolloutStorage_new T N obs_shape sp H = Inr s"
  shows "filled (observations s) 0 \<and> filled (hidden_states s) 0 \<and> filled (rewards s) 0 \<and>
         filled (value_predictions s) 0 \<and> filled (returns s) 0 \<and>
         filled (action_log_probs s) 0 \<and> filled (actions s) 0 \<and> filled (masks s) 1 \<and>
         dtype (actions s) = (if type sp = ''Discrete'' then kLong else kFloat) \<and>
         sizes (value_predictions s) = [unat (T + 1), unat N, 1] \<and>
         num_steps s = T \<and> step s = 0"
proof -
  from RolloutStorage_new_cases [OF assms]
  have obs: "\<not> list_ex (\<lambda>d. sint d < 0) obs_shape"
    and sp: "type sp = ''Discrete'' \<or> (\<exists>d ds. shape sp = d # ds \<and> 0 \<le> sint (ucast d :: 32 word))"
    by simp_all
  show ?thesis
  proof (cases "type sp = ''Discrete''")
    case True
    from RolloutStorage_new_Discrete [OF obs True, of T N H] assms True
    show ?thesis by (auto simp: filled_def)
  next
    case False
    with sp obtain d ds where "shape sp = d # ds" and "0 \<le> sint (ucast d :: 32 word)"
      by blast
    from RolloutStorage_new_Box [OF obs False this, of T N H] assms False
    show ?thesis by (auto simp: filled_def)
  qed
qed

lemma RolloutStorage_new_succeeds:
  assumes "\<not> list_ex (\<lambda>d. sint d < 0) obs_shape" and "valid_action_space sp"
  shows "\<exists>s. RolloutStorage_new T N obs_shape sp H = Inr s"
proof (cases "type sp = ''Discrete''")
  case True
  from RolloutStorage_new_Discrete [OF assms(1) True] show ?thesis by blast
next
  case False
  with assms(2) obtain d ds where "shape sp = d # ds" and "0 \<le> sint (ucast d :: 32 word)"
    by (auto simp: valid_action_space_def split: list.splits)
  from RolloutStorage_new_Box [OF assms(1) False this] show ?thesis by blast
qed

lemma run_unchanged: "run s cs = s"
proof -
  have "apply_call s c = s" for s c
    by (cases c) (simp_all add: insert_rs_def compute_returns_def after_update_def)
  then have "foldl apply_call s cs = s"
    by (induction cs) simp_all
  then show ?thesis by (simp add: run_def)
qed

subsection \<open>Shapes and contents of a fresh storage\<close>

text \<open>
  Claim C6, as amended. The array of value predictions of a storage constructed with
  horizon \<open>T\<close> (below the largest \<open>unsigned int\<close>) and \<open>N\<close> processes has the
  shape \<open>[T + 1, N, 1]\<close>: its first extent is that of the returns and the masks, one
  more than that of the rewards.
\<close>
theorem value_predictions_shape:
  assumes "RolloutStorage_new T N obs_shape sp H = Inr s" and "unat T + 1 < 2 ^ 32"
  shows "sizes (value_predictions s) = [unat T + 1, unat N, 1]"
proof -
  from assms(2) have "unat (T + 1) = unat T + 1"
    by (simp add: unat_word_ariths)
  with RolloutStorage_new_fresh [OF assms(1)] show ?thesis by simp
qed

text \<open>The theorem at the storage of the size test: horizon 3, five processes.\<close>

theorem value_predictions_shape_witness:
  "unat (3 :: 32 word) + 1 < 2 ^ 32 \<and>
   (\<exists>s. RolloutStorage_new 3 5 [5, 2] \<lparr>type = ''Discrete'', shape = [3]\<rparr> 10 = Inr s \<and>
        sizes (value_predictions s) = [4, 5, 1])"
proof -
  obtain s where s: "RolloutStorage_new 3 5 [5, 2] \<lparr>type = ''Discrete'', shape = [3]\<rparr> 10 = Inr s"
    using RolloutStorage_new_Discrete [of "[5, 2]" "\<lparr>type = ''Discrete'', shape = [3]\<rparr>" 3 5 10]
    by auto
  have b: "unat (3 :: 32 word) + 1 < 2 ^ 32" by simp
  from value_predictions_shape [OF s b] s b show ?thesis by simp
qed

text \<open>
  Claim C6 as stated, shape \<open>[T, N, 1]\<close>, fails at the storage of the size test, whose
  value predictions have the first extent 4 for the horizon 3.
\<close>

theorem value_predictions_shape_counterexample:
  "on_storage (sizes \<circ> value_predictions)
     (RolloutStorage_new 3 5 [5, 2] \<lparr>type = ''Discrete'', shape = [3]\<rparr> 10)
   \<noteq> Inr [unat (3 :: 32 word), unat (5 :: 32 word), 1]"
  using RolloutStorage_new_Discrete [of "[5, 2]" "\<lparr>type = ''Discrete'', shape = [3]\<rparr>" 3 5 10]
  by (simp add: on_storage_def)


text \<open>
  Claim C9. For every horizon, number of processes and hidden size, every observation
  shape of non-negative extents and every action space whose first extent the
  constructor can read, the construction succeeds, the masks are all 1, every other
  array is all 0, and the actions are of the integral element type \<open>kLong\<close> for a
  \<open>Discrete\<close> action space and of the floating-point type \<open>kFloat\<close> otherwise.
\<close>
theorem fresh_buffer_filled:
  assumes "\<not> list_ex (\<lambda>d. sint d < 0) obs_shape" and "valid_action_space sp"
  shows "\<exists>s. RolloutStorage_new T N obs_shape sp H = Inr s \<and>
           filled (masks s) 1 \<and> filled (observations s) 0 \<and> filled (hidden_states s) 0 \<and>
           filled (rewards s) 0 \<and> filled (value_predictions s) 0 \<and> filled (returns s) 0 \<and>
           filled (action_log_probs s) 0 \<and> filled (actions s) 0 \<and>
           dtype (actions s) = (if type sp = ''Discrete'' then kLong else kFloat)"
proof -
  from RolloutStorage_new_succeeds [OF assms]
  obtain s where s: "RolloutStorage_new T N obs_shape sp H = Inr s" by blast
  from RolloutStorage_new_fresh [OF s] s show ?thesis by blast
qed

text \<open>The theorem at a \<open>Box\<close> action space of three actions.\<close>

theorem fresh_buffer_filled_witness:
  "\<not> list_ex (\<lambda>d. sint d < 0) [5, 2 :: 64 word] \<and>
   valid_action_space \<lparr>type = ''Box'', shape = [3]\<rparr> \<and>
   (\<exists>s. RolloutStorage_new 3 5 [5, 2] \<lparr>type = ''Box'', shape = [3]\<rparr> 10 = Inr s \<and>
        elems (masks s) = replicate 20 1 \<and> elems (actions s) = replicate 45 0 \<and>
        dtype (actions s) = kFloat)"
proof -
  have a: "\<not> list_ex (\<lambda>d. sint d < 0) [5, 2 :: 64 word]" by simp
  have b: "valid_action_space \<lparr>type = ''Box'', shape = [3]\<rparr>"
    by (simp add: valid_action_space_def)
  from fresh_buffer_filled [OF a b, of 3 5 10]
  obtain s where s: "RolloutStorage_new 3 5 [5, 2] \<lparr>type = ''Box'', shape = [3]\<rparr> 10 = Inr s"
    and f: "filled (masks s) 1" "filled (actions s) 0" "dtype (actions s) = kFloat"
    by auto
  from RolloutStorage_new_Box [of "[5, 2]" "\<lparr>type = ''Box'', shape = [3]\<rparr>" 3 "[]" 3 5 10] s
  have "sizes (masks s) = [4, 5, 1]" "sizes (actions s) = [3, 5, 3]"
    by auto
  with f have "elems (masks s) = replicate 20 1" "elems (actions s) = replicate 45 0"
    by (simp_all add: filled_def numel_def)
  with a b s f show ?thesis by simp
qed

subsection \<open>The three operations\<close>

text \<open>
  Claim C10. After any finite sequence of calls of \<open>insert\<close>, \<open>compute_returns\<close> and
  \<open>after_update\<close>, with any arguments, on a constructed storage, the storage is the
  constructed one: the cursor is 0, the masks are all 1 and every other array is all 0.
\<close>
theorem operations_mutate_nothing:
  assumes "RolloutStorage_new T N obs_shape sp H = Inr s"
  shows "run s cs = s \<and> step (run s cs) = 0 \<and> filled (masks (run s cs)) 1 \<and>
         filled (observations (run s cs)) 0 \<and> filled (hidden_states (run s cs)) 0 \<and>
         filled (rewards (run s cs)) 0 \<and> filled (value_predictions (run s cs)) 0 \<and>
         filled (returns (run s cs)) 0 \<and> filled (action_log_probs (run s cs)) 0 \<and>
         filled (actions (run s cs)) 0"
  using RolloutStorage_new_fresh [OF assms] by (simp add: run_unchanged)

text \<open>The theorem at the storage of the returns test and one call of each operation.\<close>

theorem operations_mutate_nothing_witness:
  "\<exists>s. RolloutStorage_new 3 2 [4] \<lparr>type = ''Discrete'', shape = [3]\<rparr> 5 = Inr s \<and>
       run s [Insert (from_blob (replicate 8 0) [2, 4]) (from_blob (replicate 10 0) [2, 5])
                (from_blob [0, 0] [2, 1]) (from_blob [0, 0] [2, 1]) (from_blob [0, 1] [2, 1])
                (from_blob [0, 1] [2, 1]) (from_blob [1, 1] [2, 1]),
              ComputeReturns (from_blob [0, 1] [2, 1]) False (6 / 10) (6 / 10),
              AfterUpdate] = s \<and>
       step s = 0 \<and> filled (masks s) 1 \<and> filled (returns s) 0"
proof -
  obtain s where s: "RolloutStorage_new 3 2 [4] \<lparr>type = ''Discrete'', shape = [3]\<rparr> 5 = Inr s"
    using RolloutStorage_new_Discrete [of "[4]" "\<lparr>type = ''Discrete'', shape = [3]\<rparr>" 3 2 5]
    by auto
  from operations_mutate_nothing [OF s] s show ?thesis by metis
qed

lemma returns_fixture_eq:
  "returns_fixture g = RolloutStorage_new 3 2 [4] \<lparr>type = ''Discrete'', shape = [3]\<rparr> 5"
  by (cases "RolloutStorage_new 3 2 [4] \<lparr>type = ''Discrete'', shape = [3]\<rparr> 5")
     (simp_all add: returns_fixture_def on_storage_def compute_returns_def test_insert_def
       insert_rs_def)

lemma storage_3_2:
  "RolloutStorage_new 3 2 [4] \<lparr>type = ''Discrete'', shape = [3]\<rparr> 5 =
   Inr \<lparr>observations = \<lparr>sizes = [4, 2, 4], dtype = kFloat, elems = replicate 32 0\<rparr>,
        hidden_states = \<lparr>sizes = [4, 2, 5], dtype = kFloat, elems = replicate 40 0\<rparr>,
        rewards = \<lparr>sizes = [3, 2, 1], dtype = kFloat, elems = replicate 6 0\<rparr>,
        value_predictions = \<lparr>sizes = [4, 2, 1], dtype = kFloat, elems = replicate 8 0\<rparr>,
        returns = \<lparr>sizes = [4, 2, 1], dtype = kFloat, elems = replicate 8 0\<rparr>,
        action_log_probs = \<lparr>sizes = [3, 2, 1], dtype = kFloat, elems = replicate 6 0\<rparr>,
        actions = \<lparr>sizes = [3, 2, 1], dtype = kLong, elems = replicate 6 0\<rparr>,
        masks = \<lparr>sizes = [4, 2, 1], dtype = kFloat, elems = replicate 8 1\<rparr>,
        num_steps = 3, step = 0\<rparr>"
  using RolloutStorage_new_Discrete [of "[4]" "\<lparr>type = ''Discrete'', shape = [3]\<rparr>" 3 2 5]
  by (simp add: numel_def)

text \<open>
  Claim C1, at the scenario of the test without GAE: the returns are expected to be
  \<open>[[1.32, 2.2], [2.2, 2], [2, 3.6], [0, 1]]\<close>, with the next values \<open>[0, 1]\<close> in the
  last slot. The code leaves every return at 0, the last slot included.
\<close>
theorem compute_returns_without_gae_leaves_zeros:
  "read returns [3, 1] (returns_fixture False) = Inr 0 \<and>
   read returns [0, 0] (returns_fixture False) = Inr 0 \<and>
   on_storage (elems \<circ> returns) (returns_fixture False) = Inr [0, 0, 0, 0, 0, 0, 0, 0] \<and>
   on_storage (elems \<circ> returns) (returns_fixture False)
     \<noteq> Inr [132 / 100, 22 / 10, 22 / 10, 2, 2, 36 / 10, 0, 1]"
  by (simp add: returns_fixture_eq storage_3_2 read_def on_storage_def select_def item_def
      numel_def numeral_eq_Suc)


text \<open>
  Claim C2, at the scenario of the test with GAE: the returns are expected to be
  \<open>[[1.032, 2.2], [2.2, 2], [2, 3.6], [0, 1]]\<close>. The code leaves every return at 0.
\<close>

theorem compute_returns_with_gae_leaves_zeros:
  "read returns [3, 1] (returns_fixture True) = Inr 0 \<and>
   read returns [0, 0] (returns_fixture True) = Inr 0 \<and>
   on_storage (elems \<circ> returns) (returns_fixture True) = Inr [0, 0, 0, 0, 0, 0, 0, 0] \<and>
   on_storage (elems \<circ> returns) (returns_fixture True)
     \<noteq> Inr [1032 / 1000, 22 / 10, 22 / 10, 2, 2, 36 / 10, 0, 1]"
  by (simp add: returns_fixture_eq storage_3_2 read_def on_storage_def select_def item_def
      numel_def numeral_eq_Suc)

lemma insert_fixture_eq:
  "insert_fixture = RolloutStorage_new 3 4 [5, 2] \<lparr>type = ''Discrete'', shape = [3]\<rparr> 10"
  by (cases "RolloutStorage_new 3 4 [5, 2] \<lparr>type = ''Discrete'', shape = [3]\<rparr> 10")
     (simp_all add: insert_fixture_def on_storage_def insert_rs_def)

lemma storage_3_4:
  "RolloutStorage_new 3 4 [5, 2] \<lparr>type = ''Discrete'', shape = [3]\<rparr> 10 =
   Inr \<lparr>observations = \<lparr>sizes = [4, 4, 5, 2], dtype = kFloat, elems = replicate 160 0\<rparr>,
        hidden_states = \<lparr>sizes = [4, 4, 10], dtype = kFloat, elems = replicate 160 0\<rparr>,
        rewards = \<lparr>sizes = [3, 4, 1], dtype = kFloat, elems = replicate 12 0\<rparr>,
        value_predictions = \<lparr>sizes = [4, 4, 1], dtype = kFloat, elems = replicate 16 0\<rparr>,
        returns = \<lparr>sizes = [4, 4, 1], dtype = kFloat, elems = replicate 16 0\<rparr>,
        action_log_probs = \<lparr>sizes = [3, 4, 1], dtype = kFloat, elems = replicate 12 0\<rparr>,
        actions = \<lparr>sizes = [3, 4, 1], dtype = kLong, elems = replicate 12 0\<rparr>,
        masks = \<lparr>sizes = [4, 4, 1], dtype = kFloat, elems = replicate 16 1\<rparr>,
        num_steps = 3, step = 0\<rparr>"
  using RolloutStorage_new_Discrete [of "[5, 2]" "\<lparr>type = ''Discrete'', shape = [3]\<rparr>" 3 4 10]
  by (simp add: numel_def)

text \<open>
  Claim C3, at a storage of three steps and four processes with the cursor at 0: after
  an insert of a batch whose entries are all \<open>3 / 2\<close> (the action 1), slot 1 of the
  observations and hidden states and slot 0 of the actions, action log-probabilities,
  value predictions and rewards are expected to hold the batch, and the cursor to be 1.
  The code leaves every one of these entries at 0 and the cursor at 0.
\<close>

theorem insert_writes_nothing:
  "read observations [1, 0, 0, 0] insert_fixture = Inr 0 \<and>
   read hidden_states [1, 0, 0] insert_fixture = Inr 0 \<and>
   read actions [0, 0, 0] insert_fixture = Inr 0 \<and>
   read action_log_probs [0, 0, 0] insert_fixture = Inr 0 \<and>
   read value_predictions [0, 0, 0] insert_fixture = Inr 0 \<and>
   read rewards [0, 0, 0] insert_fixture = Inr 0 \<and>
   on_storage step insert_fixture = Inr 0"
  by (simp add: insert_fixture_eq storage_3_4 read_def on_storage_def select_def item_def
      numel_def numeral_eq_Suc)

text \<open>
  Claim C4, at a full buffer of one step: \<open>after_update\<close> is expected to copy slot 1 of
  the observations, hidden states and masks into slot 0 and to set the cursor to 0. The
  code leaves slot 0 as it was (0, 0 and 1, where slot 1 holds 7, 5 and 0) and the
  cursor at 1.
\<close>

theorem after_update_rotates_nothing:
  "item_at (observations full_buffer) [1, 0, 0] = Inr 7 \<and>
   item_at (observations (after_update full_buffer)) [0, 0, 0] = Inr 0 \<and>
   item_at (hidden_states full_buffer) [1, 0, 0] = Inr 5 \<and>
   item_at (hidden_states (after_update full_buffer)) [0, 0, 0] = Inr 0 \<and>
   item_at (masks full_buffer) [1, 0, 0] = Inr 0 \<and>
   item_at (masks (after_update full_buffer)) [0, 0, 0] = Inr 1 \<and>
   step (after_update full_buffer) = 1"
  by (simp add: after_update_def full_buffer_def from_blob_def select_def item_def numel_def)

section \<open>Properties of the training loop\<close>

subsection \<open>Reward normalisation\<close>

lemma track_env_returns_main:
  "returns_main (track_env r d st i) =
   (if hd (d ! i) then (returns_main st)[i := 0] else returns_main st)"
  by (simp add: track_env_def Let_def)

lemma track_env_returns_rms: "returns_rms (track_env r d st i) = returns_rms st"
  by (simp add: track_env_def Let_def)

lemma foldl_track_env_rms: "returns_rms (foldl (track_env r d) st xs) = returns_rms st"
  by (induction xs arbitrary: st) (simp_all add: track_env_returns_rms)

lemma foldl_track_env_length:
  "length (returns_main (foldl (track_env r d) st xs)) = length (returns_main st)"
  by (induction xs arbitrary: st) (simp_all add: track_env_returns_main)

lemma foldl_track_env_nth:
  "i < length (returns_main st) \<Longrightarrow>
   returns_main (foldl (track_env r d) st [0..<n]) ! i =
   (if i < n \<and> hd (d ! i) then 0 else returns_main st ! i)"
proof (induction n)
  case 0
  then show ?case by simp
next
  case (Suc n)
  let ?st = "foldl (track_env r d) st [0..<n]"
  have len: "length (returns_main ?st) = length (returns_main st)"
    by (rule foldl_track_env_length)
  have "returns_main (foldl (track_env r d) st [0..<Suc n]) = returns_main (track_env r d ?st n)"
    by simp
  also have "\<dots> ! i = (if hd (d ! n) \<and> i = n then 0 else returns_main ?st ! i)"
    using Suc.prems len by (auto simp: track_env_returns_main nth_list_update)
  finally show ?case
    using Suc by (auto simp: less_Suc_eq)
qed

lemma normalize_rewards_Inr:
  assumes "normalize_rewards u gv raw st = Inr (rw, st1)"
  shows "num_envs \<le> length raw \<and> length (returns_main st) = num_envs \<and>
         returns_main st1 =
           map2 (\<lambda>R r. R * discount_factor + r) (returns_main st) (take num_envs raw) \<and>
         returns_rms st1 = u (returns_rms st) (returns_main st1) \<and>
         rw = map (\<lambda>r. clamp (r / sqrt (gv (returns_rms st1) + 1 / 10 ^ 8))
                          (- reward_clip_value) reward_clip_value) (take num_envs raw)"
  using assms by (auto simp: normalize_rewards_def Let_def split: if_splits)

lemma map2_as_map_upt:
  assumes "length xs = n" and "n \<le> length ys"
  shows "map2 f xs (take n ys) = map (\<lambda>j. f (xs ! j) (ys ! j)) [0..<n]"
  using assms by (auto simp: list_eq_iff_nth_eq)

lemma track_episodes_Inr:
  "track_episodes r d st = Inr st' \<Longrightarrow> st' = foldl (track_env r d) st [0..<num_envs]"
  by (auto simp: track_episodes_def split: if_splits)

lemma upt_num_envs: "[0..<num_envs] = [0, 1, 2, 3, 4, 5, 6, 7]"
  unfolding num_envs_def by code_simp

text \<open>The results of a pass are defined whenever the answer of the environment covers
  every environment and the variance is not negative.\<close>

lemma step_results_succeeds:
  assumes "num_envs \<le> length raw_reward" and "num_envs \<le> length dones_vec"
    and "list_all (\<lambda>d. d \<noteq> []) (take num_envs dones_vec)"
    and "length (running_rewards st) = num_envs" and "length (returns_main st) = num_envs"
    and "length (reward_history st) = reward_average_window_size"
    and "0 \<le> get_variance (update (returns_rms st)
            (map2 (\<lambda>R r. R * discount_factor + r) (returns_main st) (take num_envs raw_reward)))"
  shows "\<exists>rewards' masks' st'.
           step_results update get_variance k raw_reward dones_vec st =
           Inr ((rewards', masks'), st')"
proof -
  let ?ret = "map2 (\<lambda>R r. R * discount_factor + r) (returns_main st) (take num_envs raw_reward)"
  from assms(7) have pos: "0 < get_variance (update (returns_rms st) ?ret) + 1 / 10 ^ 8"
    by (simp add: add_nonneg_pos)
  have len: "length ?ret = num_envs"
    using assms(1,5) by simp
  from assms(1,5) pos obtain rw where
    n: "normalize_rewards update get_variance raw_reward st =
          Inr (rw, st\<lparr>returns_rms := update (returns_rms st) ?ret, returns_main := ?ret\<rparr>)"
    by (simp add: normalize_rewards_def Let_def)
  from assms(1-4,6) len obtain st2 where
    t: "track_episodes raw_reward dones_vec
          (st\<lparr>returns_rms := update (returns_rms st) ?ret, returns_main := ?ret\<rparr>) = Inr st2"
    by (simp add: track_episodes_def)
  from n t show ?thesis
    by (simp add: step_results_def)
qed

text \<open>
  What the results of a pass are, for every environment \<open>i\<close>: the discounted return of
  \<open>i\<close> is \<open>R\<^sub>i * 0.99 + raw_reward\<^sub>i\<close>, reset to 0 exactly when the done flag of
  \<open>i\<close> is set; the running moments are updated with the vector of all these
  discounted returns (before any reset); and the entry \<open>i\<close> of \<open>rewards\<close> is the raw
  reward divided by the square root of the variance plus \<open>1e-8\<close>, clamped to
  \<open>[-100, 100]\<close>.
\<close>

lemma step_results_Inr:
  assumes "step_results update get_variance k raw_reward dones_vec st =
             Inr ((rewards', masks'), st')"
    and "i < num_envs"
  shows "returns_main st' ! i =
           (if hd (dones_vec ! i) then 0
            else returns_main st ! i * (99 / 100) + raw_reward ! i) \<and>
         returns_rms st' =
           update (returns_rms st)
             (map (\<lambda>j. returns_main st ! j * (99 / 100) + raw_reward ! j) [0..<num_envs]) \<and>
         length rewards' = num_envs \<and>
         rewards' ! i =
           clamp (raw_reward ! i / sqrt (get_variance (returns_rms st') + 1 / 10 ^ 8))
             (- 100) 100"
proof -
  from assms(1) obtain st1 where
    n: "normalize_rewards update get_variance raw_reward st = Inr (rewards', st1)" and
    t: "track_episodes raw_reward dones_vec st1 = Inr st'"
    by (auto simp: step_results_def split: sum.splits if_splits)
  note N = normalize_rewards_Inr [OF n]
  from N have len: "length (returns_main st) = num_envs" and raw: "num_envs \<le> length raw_reward"
    by simp_all
  have r1: "returns_main st1 =
      map (\<lambda>j. returns_main st ! j * discount_factor + raw_reward ! j) [0..<num_envs]"
    using N map2_as_map_upt [OF len raw] by simp
  have st': "st' = foldl (track_env raw_reward dones_vec) st1 [0..<num_envs]"
    by (rule track_episodes_Inr [OF t])
  have rms: "returns_rms st' = returns_rms st1"
    by (simp add: st' foldl_track_env_rms)
  have i1: "i < length (returns_main st1)"
    using assms(2) by (simp add: r1)
  have a: "returns_main st' ! i =
      (if hd (dones_vec ! i) then 0 else returns_main st ! i * discount_factor + raw_reward ! i)"
    using foldl_track_env_nth [OF i1, of raw_reward dones_vec num_envs] assms(2)
    by (simp add: st' r1)
  have b: "returns_rms st' = update (returns_rms st)
      (map (\<lambda>j. returns_main st ! j * discount_factor + raw_reward ! j) [0..<num_envs])"
    using N r1 rms by simp
  have c: "length rewards' = num_envs"
    using N by simp
  have d: "rewards' ! i =
      clamp (raw_reward ! i / sqrt (get_variance (returns_rms st') + 1 / 10 ^ 8))
        (- reward_clip_value) reward_clip_value"
    using N assms(2) rms by simp
  from a b c d show ?thesis
    by (simp add: discount_factor_def reward_clip_value_def)
qed

text \<open>The pass hands these results to \<open>storage.insert\<close>, and the storage after the pass
  is the storage before it.\<close>

lemma env_step_Inr:
  assumes "env_step update get_variance k observation act_result raw_reward dones_vec storage st
             = Inr (storage', st')"
  shows "storage' = storage \<and>
         (\<exists>rewards' masks'.
            step_results update get_variance k raw_reward dones_vec st =
            Inr ((rewards', masks'), st'))"
  using assms
  by (auto simp: env_step_def insert_rs_def split: if_splits sum.splits)

lemma rollout_storage_new:
  "RolloutStorage_new 40 8 [8] \<lparr>type = ''Discrete'', shape = [4]\<rparr> 64 = Inr rollout_storage"
  using RolloutStorage_new_Discrete [of "[8]" "\<lparr>type = ''Discrete'', shape = [4]\<rparr>" 40 8 64]
  by (simp add: numel_def rollout_storage_def)

lemma first_step_results:
  "step_results (\<lambda>m xs. ()) (\<lambda>m. 1 - 1 / 10 ^ 8) 1 [100, 0, 0, 0, 0, 0, 0, 0]
     [[False], [False], [False], [False], [False], [False], [False], [False]] (init_state ())
   = Inr (([100, 0, 0, 0, 0, 0, 0, 0], [1, 1, 1, 1, 1, 1, 1, 1]), second_step_state)"
proof -
  let ?st1 = "\<lparr>running_rewards = [0, 0, 0, 0, 0, 0, 0, 0], episode_count = 0, render = False,
             reward_history = [0, 0, 0, 0, 0, 0, 0, 0, 0, 0], returns_rms = (),
             returns_main = [100, 0, 0, 0, 0, 0, 0, 0]\<rparr>"
  have e1: "normalize_rewards (\<lambda>m xs. ()) (\<lambda>m. 1 - 1 / 10 ^ 8) [100, 0, 0, 0, 0, 0, 0, 0]
       (init_state ()) = Inr ([100, 0, 0, 0, 0, 0, 0, 0], ?st1)"
    by (simp add: normalize_rewards_def init_state_def num_envs_def discount_factor_def
        reward_clip_value_def reward_average_window_size_def clamp_def Let_def numeral_eq_Suc)
  have e2: "track_episodes [100, 0, 0, 0, 0, 0, 0, 0]
       [[False], [False], [False], [False], [False], [False], [False], [False]] ?st1
     = Inr second_step_state"
    by code_simp
  show ?thesis
    unfolding step_results_def e1 by (simp add: e2 upt_num_envs)
qed

lemma second_step_results:
  "step_results (\<lambda>m xs. ()) (\<lambda>m. 1 - 1 / 10 ^ 8) 1 [1, 2, 3, 4, 5, 6, 7, 200]
     [[False], [True], [False], [False], [False], [False], [False], [False]] second_step_state
   = Inr (([1, 2, 3, 4, 5, 6, 7, 100], [1, 0, 1, 1, 1, 1, 1, 1]),
          \<lparr>running_rewards = [101, 0, 3, 4, 5, 6, 7, 200], episode_count = 1, render = False,
           reward_history = [2, 0, 0, 0, 0, 0, 0, 0, 0, 0], returns_rms = (),
           returns_main = [100, 0, 3, 4, 5, 6, 7, 200]\<rparr>)"
proof -
  let ?st1 = "\<lparr>running_rewards = [100, 0, 0, 0, 0, 0, 0, 0], episode_count = 0, render = False,
             reward_history = [0, 0, 0, 0, 0, 0, 0, 0, 0, 0], returns_rms = (),
             returns_main = [100, 2, 3, 4, 5, 6, 7, 200]\<rparr>"
  let ?st2 = "\<lparr>running_rewards = [101, 0, 3, 4, 5, 6, 7, 200], episode_count = 1, render = False,
             reward_history = [2, 0, 0, 0, 0, 0, 0, 0, 0, 0], returns_rms = (),
             returns_main = [100, 0, 3, 4, 5, 6, 7, 200]\<rparr>"
  have e1: "normalize_rewards (\<lambda>m xs. ()) (\<lambda>m. 1 - 1 / 10 ^ 8) [1, 2, 3, 4, 5, 6, 7, 200]
       second_step_state = Inr ([1, 2, 3, 4, 5, 6, 7, 100], ?st1)"
    by (simp add: normalize_rewards_def second_step_state_def num_envs_def discount_factor_def
        reward_clip_value_def clamp_def numeral_eq_Suc)
  have e2: "track_episodes [1, 2, 3, 4, 5, 6, 7, 200]
       [[False], [True], [False], [False], [False], [False], [False], [False]] ?st1 = Inr ?st2"
    by code_simp
  show ?thesis
    unfolding step_results_def e1 by (simp add: e2 upt_num_envs)
qed

text \<open>
  Claim C5, at the second pass of a rollout: the results of the pass are as claimed (the
  first discounted return is \<open>100 * 0.99 + 1\<close>, the second is reset, the normalised
  rewards are the raw rewards with 200 clipped to 100), and the normalised rewards are
  expected in the rewards of the buffer. The code hands them to \<open>insert\<close>, whose body is
  empty: the rewards of the buffer are all 0 after the pass.
\<close>

theorem normalised_reward_not_stored:
  "and_then
     (step_results (\<lambda>m xs. ()) (\<lambda>m. 1 - 1 / 10 ^ 8) 1 [1, 2, 3, 4, 5, 6, 7, 200]
        [[False], [True], [False], [False], [False], [False], [False], [False]]
        second_step_state)
     (Inr \<circ> fst \<circ> fst)
   = Inr [1, 2, 3, 4, 5, 6, 7, 100] \<and>
   map_sum id (returns_main \<circ> snd) second_step = Inr [100, 0, 3, 4, 5, 6, 7, 200] \<and>
   map_sum id (elems \<circ> rewards \<circ> fst) second_step = Inr (replicate 320 0) \<and>
   map_sum id (step \<circ> fst) second_step = Inr 0"
  unfolding second_step_def env_step_def second_step_results and_then_def
  by (simp add: insert_rs_def rollout_storage_def)

subsection \<open>Episode statistics\<close>

lemma track_env_done:
  assumes "hd (dones_vec ! i)" and "i < length (running_rewards st)"
  shows "reward_history (track_env real_rewards dones_vec st i) =
           (reward_history st)[episode_count st mod reward_average_window_size :=
                                 running_rewards st ! i + real_rewards ! i] \<and>
         episode_count (track_env real_rewards dones_vec st i) = episode_count st + 1 \<and>
         running_rewards (track_env real_rewards dones_vec st i) ! i = 0"
  using assms by (simp add: track_env_def Let_def)

lemma track_env_not_done:
  assumes "\<not> hd (dones_vec ! i)"
  shows "reward_history (track_env real_rewards dones_vec st i) = reward_history st \<and>
         episode_count (track_env real_rewards dones_vec st i) = episode_count st \<and>
         running_rewards (track_env real_rewards dones_vec st i) =
           (running_rewards st)[i := running_rewards st ! i + real_rewards ! i]"
  using assms by (simp add: track_env_def Let_def)

text \<open>
  Claim C7, at a run in which no environment has finished an episode when an update
  logs: the average is expected to be handled (zero, no report, or a failure). The code
  divides the sum 0 by the count 0: the logged reward is no number, the \<open>render\<close> flag
  stays off, and the run goes on.
\<close>

theorem average_before_first_episode:
  "and_then
     (track_episodes [1, 1, 1, 1, 1, 1, 1, 1]
        [[False], [False], [False], [False], [False], [False], [False], [False]]
        (init_state ()))
     (report 10)
   = Inr (Some NaN,
          \<lparr>running_rewards = [1, 1, 1, 1, 1, 1, 1, 1], episode_count = 0, render = False,
           reward_history = [0, 0, 0, 0, 0, 0, 0, 0, 0, 0], returns_rms = (),
           returns_main = [0, 0, 0, 0, 0, 0, 0, 0]\<rparr>)"
  by code_simp

text \<open>
  Claim C8, after two steps in each of which all eight environments finish an episode of
  total \<open>1 / 2\<close>: sixteen episodes are complete, the window holds the ten most recent
  totals, all \<open>1 / 2\<close>, and the average is expected to be their mean \<open>1 / 2\<close>. The code
  sums the window in an \<open>int\<close> and reports 0.
\<close>

theorem average_truncates_sum:
  "and_then
     (and_then
        (track_episodes [1 / 2, 1 / 2, 1 / 2, 1 / 2, 1 / 2, 1 / 2, 1 / 2, 1 / 2]
           [[True], [True], [True], [True], [True], [True], [True], [True]] (init_state ()))
        (track_episodes [1 / 2, 1 / 2, 1 / 2, 1 / 2, 1 / 2, 1 / 2, 1 / 2, 1 / 2]
           [[True], [True], [True], [True], [True], [True], [True], [True]]))
     Inr
   = Inr \<lparr>running_rewards = [0, 0, 0, 0, 0, 0, 0, 0], episode_count = 16, render = False,
          reward_history = [1 / 2, 1 / 2, 1 / 2, 1 / 2, 1 / 2, 1 / 2, 1 / 2, 1 / 2, 1 / 2, 1 / 2],
          returns_rms = (), returns_main = [0, 0, 0, 0, 0, 0, 0, 0]\<rparr> \<and>
   and_then
     (and_then
        (track_episodes [1 / 2, 1 / 2, 1 / 2, 1 / 2, 1 / 2, 1 / 2, 1 / 2, 1 / 2]
           [[True], [True], [True], [True], [True], [True], [True], [True]] (init_state ()))
        (track_episodes [1 / 2, 1 / 2, 1 / 2, 1 / 2, 1 / 2, 1 / 2, 1 / 2, 1 / 2]
           [[True], [True], [True], [True], [True], [True], [True], [True]]))
     average_reward
   = Inr (Finite 0)"
  by (intro conjI; code_simp)

end
